theory Spec2Isabelle
  imports Main "HOL-Library.Word"
begin

section \<open>Python values and errors\<close>

text \<open>
  The program is \<^verbatim>\<open>myagent.py\<close>: a helper that builds a Deployment manifest
  (\<^verbatim>\<open>generate_deployment_yaml\<close>), a helper that hands a manifest to \<^verbatim>\<open>kubectl apply\<close>
  (\<^verbatim>\<open>apply_yaml\<close>), and the tool method \<^verbatim>\<open>CreateDeploymentTool._run\<close> that parses a
  textual tool input and calls both.

  Python is dynamically typed: what \<^verbatim>\<open>json.loads\<close> returns flows unchecked into the
  manifest, so the model carries Python values. A \<^verbatim>\<open>str\<close> is a \<open>string\<close> whose
  characters are the code points 0 to 255; a \<^verbatim>\<open>float\<close> is its binary64 bit pattern;
  a \<^verbatim>\<open>dict\<close> with string keys is an association list in insertion order, read by
  \<open>map_of\<close>.
\<close>

datatype pyval =
    PNone
  | PBool bool
  | PInt int
  | PFloat "64 word"
  | PStr string
  | PList "pyval list"
  | PDict "(string \<times> pyval) list"

text \<open>
  The exceptions that can leave the three functions. \<open>OSError\<close> stands for its
  subclasses too (\<^verbatim>\<open>FileNotFoundError\<close>, \<^verbatim>\<open>PermissionError\<close>).
\<close>

datatype error =
    JSONDecodeError
  | ValueError
  | AttributeError
  | RecursionError
  | OSError
  | UnicodeDecodeError

text \<open>\<^verbatim>\<open>subprocess.CompletedProcess\<close>, with the fields the program reads.\<close>

record completed_process =
  returncode :: int
  stdout :: string
  stderr :: string

text \<open>
  Modelled from the spec: the spec's observed cluster snapshot of a resource, with the
  two version markers of its glossary (generation of the spec, generation the status has
  observed). The program has no such type; the record only describes the cluster the
  program runs against.
\<close>

record snapshot =
  generation :: nat
  observed_generation :: nat

text \<open>
  The world the program acts on: the local file system (path to content), the
  calls of \<^verbatim>\<open>subprocess.run\<close> so far (argument vectors, oldest first), and the cluster as an
  observer would see it (deployment name to snapshot).
\<close>

record world =
  files :: "string \<rightharpoonup> string"
  commands :: "string list list"
  cluster :: "string \<rightharpoonup> snapshot"

text \<open>
  What the program takes from its libraries and its host, as parameters:
  \<^item> \<open>json_loads\<close>: \<^verbatim>\<open>json.loads\<close> on a \<^verbatim>\<open>str\<close>; \<open>Inl e\<close> is the exception it raises;
  \<^item> \<open>yaml_dump\<close>: \<^verbatim>\<open>yaml.dump(_, default_flow_style=False)\<close>;
  \<^item> \<open>int_max_str_digits\<close>: \<^verbatim>\<open>sys.get_int_max_str_digits()\<close>, 0 when there is no limit;
  \<^item> \<open>tmp_name\<close>: the path \<^verbatim>\<open>tempfile.NamedTemporaryFile\<close> creates in the given file system;
  \<^item> \<open>subprocess_run\<close>: \<^verbatim>\<open>subprocess.run(cmd, capture_output=True, text=True)\<close> in
    the given world: \<open>Inl e\<close> is the exception it raises (\<^verbatim>\<open>FileNotFoundError\<close> when
    there is no \<^verbatim>\<open>kubectl\<close> to start, \<^verbatim>\<open>UnicodeDecodeError\<close> when the output of the
    process is not text in the locale's encoding), otherwise the completed process;
    with it, the file system and the cluster as they are once the call has ended.
\<close>

record env =
  json_loads :: "string \<Rightarrow> error + pyval"
  yaml_dump :: "pyval \<Rightarrow> string"
  int_max_str_digits :: nat
  tmp_name :: "(string \<rightharpoonup> string) \<Rightarrow> string"
  subprocess_run ::
    "string list \<Rightarrow> world \<Rightarrow>
       (error + completed_process) \<times> (string \<rightharpoonup> string) \<times> (string \<rightharpoonup> snapshot)"

section \<open>generate_deployment_yaml\<close>

text \<open>The dict literal \<^verbatim>\<open>deployment\<close> of lines 22 to 40.\<close>

definition deployment :: "pyval \<Rightarrow> pyval \<Rightarrow> pyval \<Rightarrow> pyval \<Rightarrow> pyval \<Rightarrow> pyval" where
  "deployment name img replicas namespace port =
     PDict [
       (''apiVersion'', PStr ''apps/v1''),
       (''kind'', PStr ''Deployment''),
       (''metadata'', PDict [(''name'', name), (''namespace'', namespace)]),
       (''spec'', PDict [
          (''replicas'', replicas),
          (''selector'', PDict [(''matchLabels'', PDict [(''app'', name)])]),
          (''template'', PDict [
             (''metadata'', PDict [(''labels'', PDict [(''app'', name)])]),
             (''spec'', PDict [
                (''containers'', PList [
                   PDict [
                     (''name'', name),
                     (''image'', img),
                     (''ports'', PList [PDict [(''containerPort'', port)]])]])])])])]"

definition generate_deployment_yaml ::
  "env \<Rightarrow> pyval \<Rightarrow> pyval \<Rightarrow> pyval \<Rightarrow> pyval \<Rightarrow> pyval \<Rightarrow> string" where
  "generate_deployment_yaml e name img replicas namespace port =
     yaml_dump e (deployment name img replicas namespace port)"

text \<open>
  The defaults of the signature that the program relies on: \<^verbatim>\<open>namespace="default"\<close>
  and \<^verbatim>\<open>port=80\<close> (its only call passes name, image and replicas).
\<close>

definition default_namespace :: pyval where
  "default_namespace = PStr ''default''"

definition default_port :: pyval where
  "default_port = PInt 80"

text \<open>Reading a manifest: \<^verbatim>\<open>d[k]\<close> on a dict, and a path of keys.\<close>

fun getitem :: "pyval \<Rightarrow> string \<Rightarrow> pyval option" where
  "getitem (PDict kvs) k = map_of kvs k"
| "getitem _ k = None"

fun getpath :: "pyval \<Rightarrow> string list \<Rightarrow> pyval option" where
  "getpath v [] = Some v"
| "getpath v (k # ks) = (case getitem v k of None \<Rightarrow> None | Some v' \<Rightarrow> getpath v' ks)"

section \<open>apply_yaml\<close>

text \<open>
  Lines 44 to 51. The temporary file is created and written, \<^verbatim>\<open>kubectl apply -f\<close> is
  run on it, the file is unlinked, and the output is chosen by the return code. There is
  no \<^verbatim>\<open>try\<close>: an exception of \<^verbatim>\<open>subprocess.run\<close> leaves the function before
  \<^verbatim>\<open>os.unlink\<close>, and \<^verbatim>\<open>os.unlink\<close> raises \<^verbatim>\<open>FileNotFoundError\<close> when the file is no
  longer there. Creating and writing the file is taken to succeed.
\<close>

definition apply_yaml :: "env \<Rightarrow> string \<Rightarrow> world \<Rightarrow> (error + string) \<times> world" where
  "apply_yaml e yaml_content w =
     (let temp_file = tmp_name e (files w);
          w1 = w\<lparr>files := (files w)(temp_file \<mapsto> yaml_content)\<rparr>;
          cmd = [''kubectl'', ''apply'', ''-f'', temp_file];
          (outcome, fs, cl) = subprocess_run e cmd w1;
          w2 = w1\<lparr>files := fs, commands := commands w1 @ [cmd], cluster := cl\<rparr>
      in case outcome of
           Inl err \<Rightarrow> (Inl err, w2)
         | Inr result \<Rightarrow>
             (case fs temp_file of
                None \<Rightarrow> (Inl OSError, w2)
              | Some content \<Rightarrow>
                  (Inr (if returncode result = 0 then stdout result else stderr result),
                   w2\<lparr>files := fs(temp_file := None)\<rparr>)))"

section \<open>CreateDeploymentTool._run\<close>

subsection \<open>The library calls on strings\<close>

text \<open>
  \<^verbatim>\<open>str.isspace\<close> on one character, which is also the class \<^verbatim>\<open>\s\<close> of \<^verbatim>\<open>re\<close> and the
  separator of \<^verbatim>\<open>str.split()\<close>: code points 9 to 13, 28 to 32, 133 and 160.
\<close>

definition isspace :: "char \<Rightarrow> bool" where
  "isspace c = (let n = (of_char c :: nat)
                in (9 \<le> n \<and> n \<le> 13) \<or> (28 \<le> n \<and> n \<le> 32) \<or> n = 133 \<or> n = 160)"

text \<open>The class \<^verbatim>\<open>\d\<close>: below code point 256 the decimal digits are 0 to 9.\<close>

definition isdigit :: "char \<Rightarrow> bool" where
  "isdigit c = (let n = (of_char c :: nat) in 48 \<le> n \<and> n \<le> 57)"

text \<open>The class \<^verbatim>\<open>[^,\s]\<close>.\<close>

definition not_comma_space :: "char \<Rightarrow> bool" where
  "not_comma_space c = (if c = CHR '','' then False else if isspace c then False else True)"

text \<open>
  \<^verbatim>\<open>re.search(lit + '(' + cls + '+)', s)\<close> and its group 1, for a literal \<open>lit\<close> and a
  character class \<open>cls\<close>: the leftmost position where \<open>lit\<close> is followed by at least
  one character of the class; the group is the longest run of such characters.
\<close>

definition match_here :: "string \<Rightarrow> (char \<Rightarrow> bool) \<Rightarrow> string \<Rightarrow> string option" where
  "match_here lit cls s =
     (if take (length lit) s = lit
      then (case takeWhile cls (drop (length lit) s) of [] \<Rightarrow> None | c # cs \<Rightarrow> Some (c # cs))
      else None)"

fun re_search :: "string \<Rightarrow> (char \<Rightarrow> bool) \<Rightarrow> string \<Rightarrow> string option" where
  "re_search lit cls [] = match_here lit cls []"
| "re_search lit cls (c # cs) =
     (case match_here lit cls (c # cs) of
        Some g \<Rightarrow> Some g
      | None \<Rightarrow> re_search lit cls cs)"

text \<open>
  \<^verbatim>\<open>s.split()\<close>: the maximal runs of characters that are not whitespace. \<open>cur\<close> is the
  run being read.
\<close>

fun split_from :: "string \<Rightarrow> string \<Rightarrow> string list" where
  "split_from cur [] = (if cur = [] then [] else [cur])"
| "split_from cur (c # cs) =
     (if isspace c then (if cur = [] then split_from [] cs else cur # split_from [] cs)
      else split_from (cur @ [c]) cs)"

definition split :: "string \<Rightarrow> string list" where
  "split s = split_from [] s"

text \<open>
  \<^verbatim>\<open>int(s)\<close> on a string without whitespace (the only strings the program converts are
  a run of digits and a field of \<^verbatim>\<open>split()\<close>): an optional sign, then digits that may
  be grouped by single underscores; \<^verbatim>\<open>ValueError\<close> otherwise, and also when the number of
  digits exceeds a positive \<open>int_max_str_digits\<close>.
\<close>

fun digits_ok :: "bool \<Rightarrow> string \<Rightarrow> bool" where
  "digits_ok after_digit [] = after_digit"
| "digits_ok after_digit (c # cs) =
     (if c = CHR ''_'' then (if after_digit then digits_ok False cs else False)
      else if isdigit c then digits_ok True cs
      else False)"

fun digits_value :: "nat \<Rightarrow> string \<Rightarrow> nat" where
  "digits_value acc [] = acc"
| "digits_value acc (c # cs) =
     (if c = CHR ''_'' then digits_value acc cs
      else digits_value (10 * acc + (of_char c - 48)) cs)"

definition int_of_digits :: "env \<Rightarrow> string \<Rightarrow> error + nat" where
  "int_of_digits e s =
     (if digits_ok False s
      then (if 0 < int_max_str_digits e \<and> int_max_str_digits e < length (filter isdigit s)
            then Inl ValueError
            else Inr (digits_value 0 s))
      else Inl ValueError)"

fun py_int :: "env \<Rightarrow> string \<Rightarrow> error + int" where
  "py_int e [] = Inl ValueError"
| "py_int e (c # cs) =
     (if c = CHR ''-'' then map_sum id (\<lambda>n. - int n) (int_of_digits e cs)
      else if c = CHR ''+'' then map_sum id int (int_of_digits e cs)
      else map_sum id int (int_of_digits e (c # cs)))"

subsection \<open>The three input formats\<close>

text \<open>\<^verbatim>\<open>data.get(k, default)\<close> of lines 66 to 68; on a value that is no dict, \<^verbatim>\<open>AttributeError\<close>.\<close>

fun py_get :: "pyval \<Rightarrow> string \<Rightarrow> pyval \<Rightarrow> error + pyval" where
  "py_get (PDict kvs) k d = Inr (case map_of kvs k of None \<Rightarrow> d | Some v \<Rightarrow> v)"
| "py_get _ k d = Inl AttributeError"

definition parse_json :: "pyval \<Rightarrow> error + (pyval \<times> pyval \<times> pyval)" where
  "parse_json data =
     (case py_get data ''name'' PNone of
        Inl err \<Rightarrow> Inl err
      | Inr name \<Rightarrow>
          (case py_get data ''image'' PNone of
             Inl err \<Rightarrow> Inl err
           | Inr img \<Rightarrow>
               (case py_get data ''replicas'' (PInt 1) of
                  Inl err \<Rightarrow> Inl err
                | Inr replicas \<Rightarrow> Inr (name, img, replicas))))"

text \<open>Lines 73 to 82: the branch taken when the input holds an equals sign.\<close>

definition parse_key_value :: "env \<Rightarrow> string \<Rightarrow> error + (pyval \<times> pyval \<times> pyval)" where
  "parse_key_value e tool_input =
     (let name_match = re_search ''name='' not_comma_space tool_input;
          image_match = re_search ''image='' not_comma_space tool_input;
          replicas_match = re_search ''replicas='' isdigit tool_input
      in case name_match of
           None \<Rightarrow> Inl ValueError
         | Some name \<Rightarrow>
             (case image_match of
                None \<Rightarrow> Inl ValueError
              | Some img \<Rightarrow>
                  (case replicas_match of
                     None \<Rightarrow> Inr (PStr name, PStr img, PInt 1)
                   | Some ds \<Rightarrow>
                       (case py_int e ds of
                          Inl err \<Rightarrow> Inl err
                        | Inr n \<Rightarrow> Inr (PStr name, PStr img, PInt n)))))"

text \<open>Lines 85 to 91: the branch taken otherwise.\<close>

definition parse_fields :: "env \<Rightarrow> string \<Rightarrow> error + (pyval \<times> pyval \<times> pyval)" where
  "parse_fields e tool_input =
     (case split tool_input of
        name # img # rest \<Rightarrow>
          (case rest of
             [] \<Rightarrow> Inr (PStr name, PStr img, PInt 1)
           | r # _ \<Rightarrow>
               (case py_int e r of
                  Inl err \<Rightarrow> Inl err
                | Inr n \<Rightarrow> Inr (PStr name, PStr img, PInt n)))
      | _ \<Rightarrow> Inl ValueError)"

text \<open>
  Lines 63 to 91, the \<^verbatim>\<open>try\<close> statement: only \<^verbatim>\<open>json.JSONDecodeError\<close> is caught; any
  other exception of the \<^verbatim>\<open>try\<close> body leaves \<^verbatim>\<open>_run\<close>.
\<close>

definition parse_tool_input :: "env \<Rightarrow> string \<Rightarrow> error + (pyval \<times> pyval \<times> pyval)" where
  "parse_tool_input e tool_input =
     (case json_loads e tool_input of
        Inr data \<Rightarrow> parse_json data
      | Inl JSONDecodeError \<Rightarrow>
          (if CHR ''='' \<in> set tool_input then parse_key_value e tool_input
           else parse_fields e tool_input)
      | Inl err \<Rightarrow> Inl err)"

text \<open>Lines 58 to 94.\<close>

definition CreateDeploymentTool_run :: "env \<Rightarrow> string \<Rightarrow> world \<Rightarrow> (error + string) \<times> world" where
  "CreateDeploymentTool_run e tool_input w =
     (case parse_tool_input e tool_input of
        Inl err \<Rightarrow> (Inl err, w)
      | Inr (name, img, replicas) \<Rightarrow>
          apply_yaml e
            (generate_deployment_yaml e name img replicas default_namespace default_port) w)"

text \<open>Whether a value is a \<^verbatim>\<open>dict\<close>, the only decoded value that has \<^verbatim>\<open>get\<close>.\<close>

fun is_dict :: "pyval \<Rightarrow> bool" where
  "is_dict (PDict kvs) = True"
| "is_dict _ = False"

section \<open>A host for the examples\<close>

text \<open>
  The examples run in a concrete host. Its \<open>json_loads\<close> gives the values of
  \<^verbatim>\<open>json.loads\<close> on the example inputs only: five of them are JSON documents, and on
  each of the others \<^verbatim>\<open>json.loads\<close> raises \<^verbatim>\<open>JSONDecodeError\<close>. Its \<open>yaml_dump\<close>
  is a stand-in that writes the kind of the manifest; no example depends on the text.
  Its \<^verbatim>\<open>kubectl\<close> answers with return code 0, that of \<open>kubectl_fails\<close> with 1; with
  \<open>kubectl_missing\<close> there is no \<^verbatim>\<open>kubectl\<close> on the path, and \<open>kubectl_garbled\<close> is a
  \<^verbatim>\<open>kubectl\<close> that ran, failed and wrote bytes that are no text. None of them touches
  the files.
\<close>

definition sample_json_loads :: "string \<Rightarrow> error + pyval" where
  \<open>sample_json_loads s =
     (if s = ''{"name": "web"}'' then Inr (PDict [(''name'', PStr ''web'')])
      else if s = ''{"name": "web", "image": "nginx"}''
        then Inr (PDict [(''name'', PStr ''web''), (''image'', PStr ''nginx'')])
      else if s = ''{"name": "", "image": "nginx", "replicas": -1}''
        then Inr (PDict [(''name'', PStr []), (''image'', PStr ''nginx''),
                         (''replicas'', PInt (- 1))])
      else if s = ''{}'' then Inr (PDict [])
      else if s = ''3'' then Inr (PInt 3)
      else Inl JSONDecodeError)\<close>

definition sample_yaml_dump :: "pyval \<Rightarrow> string" where
  "sample_yaml_dump m = (case getitem m ''kind'' of Some (PStr k) \<Rightarrow> ''kind: '' @ k | _ \<Rightarrow> [])"

definition kubectl_ok ::
  "string list \<Rightarrow> world \<Rightarrow>
     (error + completed_process) \<times> (string \<rightharpoonup> string) \<times> (string \<rightharpoonup> snapshot)" where
  "kubectl_ok cmd w =
     (Inr \<lparr>returncode = 0, stdout = ''deployment.apps/web created'', stderr = []\<rparr>,
      files w, cluster w)"

definition kubectl_fails ::
  "string list \<Rightarrow> world \<Rightarrow>
     (error + completed_process) \<times> (string \<rightharpoonup> string) \<times> (string \<rightharpoonup> snapshot)" where
  "kubectl_fails cmd w =
     (Inr \<lparr>returncode = 1, stdout = [], stderr = ''error: unable to connect to the server''\<rparr>,
      files w, cluster w)"

definition kubectl_missing ::
  "string list \<Rightarrow> world \<Rightarrow>
     (error + completed_process) \<times> (string \<rightharpoonup> string) \<times> (string \<rightharpoonup> snapshot)" where
  "kubectl_missing cmd w = (Inl OSError, files w, cluster w)"

definition kubectl_garbled ::
  "string list \<Rightarrow> world \<Rightarrow>
     (error + completed_process) \<times> (string \<rightharpoonup> string) \<times> (string \<rightharpoonup> snapshot)" where
  "kubectl_garbled cmd w = (Inl UnicodeDecodeError, files w, cluster w)"

definition sample_env :: env where
  "sample_env =
     \<lparr>json_loads = sample_json_loads,
      yaml_dump = sample_yaml_dump,
      int_max_str_digits = 4300,
      tmp_name = (\<lambda>fs. ''/tmp/tmp0.yaml''),
      subprocess_run = kubectl_ok\<rparr>"

definition empty_world :: world where
  "empty_world = \<lparr>files = Map.empty, commands = [], cluster = Map.empty\<rparr>"

text \<open>A cluster in which the deployment \<^verbatim>\<open>web\<close> is in the middle of a rollout.\<close>

definition rollout_world :: world where
  "rollout_world =
     \<lparr>files = Map.empty, commands = [],
      cluster = [''web'' \<mapsto> \<lparr>generation = 2, observed_generation = 1\<rparr>]\<rparr>"

section \<open>Facts about the string functions\<close>

lemma match_here_Some:
  assumes "match_here lit cls s = Some g"
  shows "g \<noteq> [] \<and> (\<forall>c\<in>set g. cls c) \<and> (\<exists>post. s = lit @ g @ post)"
proof -
  from assms have pre: "take (length lit) s = lit"
    and g: "g = takeWhile cls (drop (length lit) s)" and ne: "g \<noteq> []"
    by (auto simp: match_here_def split: if_splits list.splits)
  have "\<forall>c\<in>set g. cls c"
    unfolding g by (auto dest: set_takeWhileD)
  moreover have "s = lit @ g @ dropWhile cls (drop (length lit) s)"
    unfolding g using pre by (metis append_take_drop_id takeWhile_dropWhile_id)
  ultimately show ?thesis using ne by blast
qed

lemma match_here_None:
  "match_here lit cls s = None \<longleftrightarrow> \<not> (\<exists>c post. s = lit @ c # post \<and> cls c)"
proof
  assume n: "match_here lit cls s = None"
  show "\<not> (\<exists>c post. s = lit @ c # post \<and> cls c)"
  proof
    assume "\<exists>c post. s = lit @ c # post \<and> cls c"
    then obtain c post where "s = lit @ c # post" "cls c" by blast
    then have "match_here lit cls s \<noteq> None"
      by (simp add: match_here_def)
    with n show False by simp
  qed
next
  assume a: "\<not> (\<exists>c post. s = lit @ c # post \<and> cls c)"
  show "match_here lit cls s = None"
  proof (rule ccontr)
    assume "match_here lit cls s \<noteq> None"
    then obtain g where "match_here lit cls s = Some g" by auto
    from match_here_Some[OF this] obtain post where "g \<noteq> []" "\<forall>c\<in>set g. cls c" "s = lit @ g @ post"
      by blast
    then obtain c cs where "g = c # cs" by (cases g) auto
    with \<open>s = lit @ g @ post\<close> \<open>\<forall>c\<in>set g. cls c\<close> have "s = lit @ c # (cs @ post) \<and> cls c" by simp
    with a show False by blast
  qed
qed

lemma re_search_Some:
  "re_search lit cls s = Some g \<Longrightarrow>
     g \<noteq> [] \<and> (\<forall>c\<in>set g. cls c) \<and> (\<exists>pre post. s = pre @ lit @ g @ post)"
proof (induction s)
  case Nil
  then have m: "match_here lit cls [] = Some g" by simp
  from match_here_Some[OF m] obtain post where
    "g \<noteq> []" "\<forall>c\<in>set g. cls c" "[] = lit @ g @ post" by blast
  then show ?case by simp
next
  case (Cons a s)
  show ?case
  proof (cases "match_here lit cls (a # s)")
    case None
    with Cons.prems have "re_search lit cls s = Some g" by simp
    from Cons.IH[OF this] obtain pre post where "g \<noteq> []" "\<forall>c\<in>set g. cls c" "s = pre @ lit @ g @ post"
      by blast
    then have "a # s = (a # pre) @ lit @ g @ post" by simp
    with \<open>g \<noteq> []\<close> \<open>\<forall>c\<in>set g. cls c\<close> show ?thesis by blast
  next
    case (Some h)
    with Cons.prems have "h = g" by simp
    with Some have m: "match_here lit cls (a # s) = Some g" by simp
    from match_here_Some[OF m] obtain post where
      "g \<noteq> []" "\<forall>c\<in>set g. cls c" "a # s = lit @ g @ post" by blast
    then have "a # s = [] @ lit @ g @ post" by simp
    with \<open>g \<noteq> []\<close> \<open>\<forall>c\<in>set g. cls c\<close> show ?thesis by blast
  qed
qed

lemma re_search_None:
  "re_search lit cls s = None \<longleftrightarrow> \<not> (\<exists>pre c post. s = pre @ lit @ c # post \<and> cls c)"
proof (induction s)
  case Nil
  show ?case by (simp add: match_here_None)
next
  case (Cons a s)
  show ?case
  proof
    assume n: "re_search lit cls (a # s) = None"
    then have m: "match_here lit cls (a # s) = None" and r: "re_search lit cls s = None"
      by (auto split: option.splits)
    show "\<not> (\<exists>pre c post. a # s = pre @ lit @ c # post \<and> cls c)"
    proof
      assume "\<exists>pre c post. a # s = pre @ lit @ c # post \<and> cls c"
      then obtain pre c post where eq: "a # s = pre @ lit @ c # post" and c: "cls c" by blast
      show False
      proof (cases pre)
        case Nil
        with eq c m show False by (auto simp: match_here_None)
      next
        case (Cons b pre')
        with eq have "s = pre' @ lit @ c # post" by simp
        with c r Cons.IH show False by blast
      qed
    qed
  next
    assume a: "\<not> (\<exists>pre c post. a # s = pre @ lit @ c # post \<and> cls c)"
    have "match_here lit cls (a # s) = None"
      unfolding match_here_None
    proof
      assume "\<exists>c post. a # s = lit @ c # post \<and> cls c"
      then obtain c post where "a # s = [] @ lit @ c # post" "cls c" by auto
      with a show False by blast
    qed
    moreover have "re_search lit cls s = None"
      unfolding Cons.IH
    proof
      assume "\<exists>pre c post. s = pre @ lit @ c # post \<and> cls c"
      then obtain pre c post where "s = pre @ lit @ c # post" "cls c" by blast
      then have "a # s = (a # pre) @ lit @ c # post" "cls c" by simp_all
      with a show False by blast
    qed
    ultimately show "re_search lit cls (a # s) = None" by simp
  qed
qed



section \<open>Facts about the host of the examples and the tool\<close>

lemma sample_env_sel:
  "json_loads sample_env = sample_json_loads"
  "yaml_dump sample_env = sample_yaml_dump"
  "int_max_str_digits sample_env = 4300"
  "tmp_name sample_env fs = ''/tmp/tmp0.yaml''"
  "subprocess_run sample_env = kubectl_ok"
  by (simp_all add: sample_env_def)

lemma empty_world_sel:
  "files empty_world = Map.empty"
  "commands empty_world = []"
  "cluster empty_world = Map.empty"
  by (simp_all add: empty_world_def)

lemma rollout_world_sel:
  "files rollout_world = Map.empty"
  "commands rollout_world = []"
  "cluster rollout_world = [''web'' \<mapsto> \<lparr>generation = 2, observed_generation = 1\<rparr>]"
  by (simp_all add: rollout_world_def)

lemmas host_defs =
  sample_env_sel empty_world_sel rollout_world_sel
  sample_json_loads_def sample_yaml_dump_def kubectl_ok_def kubectl_fails_def
  kubectl_missing_def kubectl_garbled_def

lemmas parse_defs =
  parse_tool_input_def parse_json_def parse_key_value_def parse_fields_def split_def
  match_here_def not_comma_space_def isspace_def isdigit_def int_of_digits_def

lemma apply_yaml_commands:
  "commands (snd (apply_yaml e y w))
     = commands w @ [[''kubectl'', ''apply'', ''-f'', tmp_name e (files w)]]"
  by (simp add: apply_yaml_def Let_def split: prod.splits sum.splits option.splits)

lemma run_parsed:
  "parse_tool_input e s = Inr (name, img, replicas) \<Longrightarrow>
     CreateDeploymentTool_run e s w
       = apply_yaml e (generate_deployment_yaml e name img replicas default_namespace default_port) w"
  by (simp add: CreateDeploymentTool_run_def)

lemma run_failed:
  "parse_tool_input e s = Inl err \<Longrightarrow> CreateDeploymentTool_run e s w = (Inl err, w)"
  by (simp add: CreateDeploymentTool_run_def)

lemma isdigit_not_underscore: "isdigit c \<Longrightarrow> c \<noteq> CHR ''_''"
  by (auto simp: isdigit_def)

lemma digits_ok_all_digits:
  "\<forall>c\<in>set ds. isdigit c \<Longrightarrow> digits_ok b ds = (b \<or> ds \<noteq> [])"
  by (induction ds arbitrary: b) (auto simp: isdigit_not_underscore)

lemma py_int_digits:
  assumes "ds \<noteq> []" and "\<forall>c\<in>set ds. isdigit c"
    and "int_max_str_digits e = 0 \<or> length ds \<le> int_max_str_digits e"
  shows "py_int e ds = Inr (int (digits_value 0 ds))"
proof -
  from assms(1) obtain c cs where ds: "ds = c # cs" by (cases ds) auto
  with assms(2) have "isdigit c" by simp
  then have sign: "c \<noteq> CHR ''-''" "c \<noteq> CHR ''+''"
    by (auto simp: isdigit_def)
  have ok: "digits_ok False ds"
    using assms(1,2) by (simp add: digits_ok_all_digits)
  have "filter isdigit ds = ds"
    using assms(2) by (simp add: filter_id_conv)
  with assms(3) ok have "int_of_digits e ds = Inr (digits_value 0 ds)"
    by (auto simp: int_of_digits_def)
  with sign show ?thesis unfolding ds by simp
qed



section \<open>The manifest of an intent\<close>

text \<open>
  C1. For name "web", image "nginx:1.25", replicas 3, namespace "default" and port 80,
  \<^verbatim>\<open>generate_deployment_yaml\<close> serialises a Deployment whose pod spec has exactly one
  container, whose replicas are 3, and whose container has exactly one port mapping,
  with containerPort 80.
\<close>

theorem generate_deployment_yaml_web:
  "generate_deployment_yaml e (PStr ''web'') (PStr ''nginx:1.25'') (PInt 3) (PStr ''default'') (PInt 80)
     = yaml_dump e (deployment (PStr ''web'') (PStr ''nginx:1.25'') (PInt 3) (PStr ''default'') (PInt 80))
   \<and> getpath (deployment (PStr ''web'') (PStr ''nginx:1.25'') (PInt 3) (PStr ''default'') (PInt 80))
        [''kind''] = Some (PStr ''Deployment'')
   \<and> getpath (deployment (PStr ''web'') (PStr ''nginx:1.25'') (PInt 3) (PStr ''default'') (PInt 80))
        [''spec'', ''replicas''] = Some (PInt 3)
   \<and> getpath (deployment (PStr ''web'') (PStr ''nginx:1.25'') (PInt 3) (PStr ''default'') (PInt 80))
        [''spec'', ''template'', ''spec'', ''containers'']
       = Some (PList [PDict [(''name'', PStr ''web''), (''image'', PStr ''nginx:1.25''),
                             (''ports'', PList [PDict [(''containerPort'', PInt 80)]])]])"
  by (simp add: generate_deployment_yaml_def deployment_def)

section \<open>Validation\<close>




text \<open>
  C4. An input without an image is to fail before the cluster is contacted. The
  key=value input \<^verbatim>\<open>name=web\<close> and the field input \<^verbatim>\<open>web\<close> do fail with
  \<^verbatim>\<open>ValueError\<close> in an unchanged world, but the JSON object \<^verbatim>\<open>{"name": "web"}\<close> is
  parsed with image \<^verbatim>\<open>None\<close>, and \<^verbatim>\<open>kubectl apply\<close> is run on its manifest.
\<close>

theorem json_without_image_is_applied:
  \<open>parse_tool_input sample_env ''{"name": "web"}'' = Inr (PStr ''web'', PNone, PInt 1)
   \<and> fst (CreateDeploymentTool_run sample_env ''{"name": "web"}'' empty_world)
       = Inr ''deployment.apps/web created''
   \<and> commands (snd (CreateDeploymentTool_run sample_env ''{"name": "web"}'' empty_world))
       = [[''kubectl'', ''apply'', ''-f'', ''/tmp/tmp0.yaml'']]
   \<and> CreateDeploymentTool_run sample_env ''name=web'' empty_world = (Inl ValueError, empty_world)
   \<and> CreateDeploymentTool_run sample_env ''web'' empty_world = (Inl ValueError, empty_world)\<close>
proof -
  have p: \<open>parse_tool_input sample_env ''{"name": "web"}'' = Inr (PStr ''web'', PNone, PInt 1)\<close>
    by (simp add: parse_defs host_defs)
  have a: \<open>fst (CreateDeploymentTool_run sample_env ''{"name": "web"}'' empty_world)
       = Inr ''deployment.apps/web created''\<close>
    by (simp add: run_parsed [OF p] apply_yaml_def host_defs)
  have c: \<open>commands (snd (CreateDeploymentTool_run sample_env ''{"name": "web"}'' empty_world))
       = [[''kubectl'', ''apply'', ''-f'', ''/tmp/tmp0.yaml'']]\<close>
    by (simp add: run_parsed [OF p] apply_yaml_commands host_defs)
  have k: "parse_tool_input sample_env ''name=web'' = Inl ValueError"
    by (simp add: parse_defs host_defs)
  have f: "parse_tool_input sample_env ''web'' = Inl ValueError"
    by (simp add: parse_defs host_defs)
  from p a c run_failed [OF k] run_failed [OF f] show ?thesis by simp
qed

section \<open>The input formats\<close>

text \<open>
  The order of the three formats. A JSON object gives name, image and replicas by
  \<^verbatim>\<open>get\<close>, whatever else the text contains. When decoding fails and the input holds
  an equals sign, the key=value format is read: name and image are the matches of
  \<^verbatim>\<open>name=\<close> and \<^verbatim>\<open>image=\<close>, replicas the optional match of \<^verbatim>\<open>replicas=\<close>, and
  \<^verbatim>\<open>ValueError\<close> is raised when name or image has no match. When decoding fails and
  there is no equals sign, the whitespace-separated fields are read as name, image and
  optional replicas, and \<^verbatim>\<open>ValueError\<close> is raised when there are fewer than two fields.
\<close>

lemma parse_tool_input_formats:
  "(json_loads e s = Inr (PDict kvs) \<longrightarrow>
      parse_tool_input e s =
        Inr (case map_of kvs ''name'' of None \<Rightarrow> PNone | Some v \<Rightarrow> v,
             case map_of kvs ''image'' of None \<Rightarrow> PNone | Some v \<Rightarrow> v,
             case map_of kvs ''replicas'' of None \<Rightarrow> PInt 1 | Some v \<Rightarrow> v))
   \<and> (json_loads e s = Inl JSONDecodeError \<and> CHR ''='' \<in> set s \<longrightarrow>
        parse_tool_input e s =
          (case (re_search ''name='' not_comma_space s, re_search ''image='' not_comma_space s) of
             (Some n, Some i) \<Rightarrow>
               (case re_search ''replicas='' isdigit s of
                  None \<Rightarrow> Inr (PStr n, PStr i, PInt 1)
                | Some ds \<Rightarrow> map_sum id (\<lambda>k. (PStr n, PStr i, PInt k)) (py_int e ds))
           | _ \<Rightarrow> Inl ValueError))
   \<and> (json_loads e s = Inl JSONDecodeError \<and> CHR ''='' \<notin> set s \<longrightarrow>
        parse_tool_input e s =
          (case split s of
             [] \<Rightarrow> Inl ValueError
           | [n] \<Rightarrow> Inl ValueError
           | [n, i] \<Rightarrow> Inr (PStr n, PStr i, PInt 1)
           | n # i # r # _ \<Rightarrow> map_sum id (\<lambda>k. (PStr n, PStr i, PInt k)) (py_int e r)))"
  by (simp add: parse_tool_input_def parse_json_def parse_key_value_def parse_fields_def
        split: option.splits list.splits sum.splits)

lemma parse_tool_input_formats_example:
  \<open>json_loads sample_env ''{"name": "web", "image": "nginx"}''
     = Inr (PDict [(''name'', PStr ''web''), (''image'', PStr ''nginx'')])
   \<and> parse_tool_input sample_env ''{"name": "web", "image": "nginx"}''
       = Inr (PStr ''web'', PStr ''nginx'', PInt 1)
   \<and> json_loads sample_env ''name=lw, image=nginx'' = Inl JSONDecodeError
   \<and> CHR ''='' \<in> set ''name=lw, image=nginx''
   \<and> parse_tool_input sample_env ''name=lw, image=nginx''
       = Inr (PStr ''lw'', PStr ''nginx'', PInt 1)
   \<and> json_loads sample_env ''web nginx:1.25 3'' = Inl JSONDecodeError
   \<and> CHR ''='' \<notin> set ''web nginx:1.25 3''
   \<and> parse_tool_input sample_env ''web nginx:1.25 3''
       = Inr (PStr ''web'', PStr ''nginx:1.25'', PInt 3)\<close>
proof -
  have j1: \<open>json_loads sample_env ''{"name": "web", "image": "nginx"}''
     = Inr (PDict [(''name'', PStr ''web''), (''image'', PStr ''nginx'')])\<close>
    by (simp add: host_defs)
  have p1: \<open>parse_tool_input sample_env ''{"name": "web", "image": "nginx"}''
       = Inr (PStr ''web'', PStr ''nginx'', PInt 1)\<close>
    using parse_tool_input_formats
      [of sample_env _ "[(''name'', PStr ''web''), (''image'', PStr ''nginx'')]", THEN conjunct1]
      j1
    by simp
  have j2: "json_loads sample_env ''name=lw, image=nginx'' = Inl JSONDecodeError"
    by (simp add: host_defs)
  have m2: "CHR ''='' \<in> set ''name=lw, image=nginx''" by simp
  have p2: "parse_tool_input sample_env ''name=lw, image=nginx''
       = Inr (PStr ''lw'', PStr ''nginx'', PInt 1)"
    using parse_tool_input_formats
      [of sample_env "''name=lw, image=nginx''" "[]", THEN conjunct2, THEN conjunct1] j2 m2
    by (simp add: match_here_def not_comma_space_def isspace_def isdigit_def)
  have j3: "json_loads sample_env ''web nginx:1.25 3'' = Inl JSONDecodeError"
    by (simp add: host_defs)
  have m3: "CHR ''='' \<notin> set ''web nginx:1.25 3''" by simp
  have p3: "parse_tool_input sample_env ''web nginx:1.25 3''
       = Inr (PStr ''web'', PStr ''nginx:1.25'', PInt 3)"
    using parse_tool_input_formats
      [of sample_env "''web nginx:1.25 3''" "[]", THEN conjunct2, THEN conjunct2] j3 m3
    by (simp add: split_def isspace_def isdigit_def int_of_digits_def sample_env_sel)
  from j1 p1 j2 m2 p2 j3 m3 p3 show ?thesis by (intro conjI)
qed

text \<open>
  C5. The parser is to try JSON, then key=value, then whitespace-separated fields, and
  to raise \<^verbatim>\<open>ValueError\<close> when a format yields no name and image. The order is as
  stated (\<open>parse_tool_input_formats\<close>), and the two fallback formats do raise: the
  key=value input \<^verbatim>\<open>replicas=3\<close> and the empty input give \<^verbatim>\<open>ValueError\<close>. The JSON
  format does not: the object \<^verbatim>\<open>{}\<close> yields neither name nor image, is parsed as
  \<^verbatim>\<open>(None, None, 1)\<close>, and \<^verbatim>\<open>kubectl apply\<close> is run on its manifest.
\<close>

theorem empty_json_object_is_applied:
  "json_loads sample_env ''{}'' = Inr (PDict [])
   \<and> parse_tool_input sample_env ''{}'' = Inr (PNone, PNone, PInt 1)
   \<and> fst (CreateDeploymentTool_run sample_env ''{}'' empty_world)
       = Inr ''deployment.apps/web created''
   \<and> commands (snd (CreateDeploymentTool_run sample_env ''{}'' empty_world))
       = [[''kubectl'', ''apply'', ''-f'', ''/tmp/tmp0.yaml'']]
   \<and> CreateDeploymentTool_run sample_env ''replicas=3'' empty_world
       = (Inl ValueError, empty_world)
   \<and> CreateDeploymentTool_run sample_env [] empty_world = (Inl ValueError, empty_world)"
proof -
  have j: "json_loads sample_env ''{}'' = Inr (PDict [])"
    by (simp add: host_defs)
  have p: "parse_tool_input sample_env ''{}'' = Inr (PNone, PNone, PInt 1)"
    by (simp add: parse_defs host_defs)
  have a: "fst (CreateDeploymentTool_run sample_env ''{}'' empty_world)
             = Inr ''deployment.apps/web created''"
    by (simp add: run_parsed [OF p] apply_yaml_def host_defs)
  have c: "commands (snd (CreateDeploymentTool_run sample_env ''{}'' empty_world))
             = [[''kubectl'', ''apply'', ''-f'', ''/tmp/tmp0.yaml'']]"
    by (simp add: run_parsed [OF p] apply_yaml_commands host_defs)
  have k: "parse_tool_input sample_env ''replicas=3'' = Inl ValueError"
    by (simp add: parse_defs host_defs)
  have f: "parse_tool_input sample_env [] = Inl ValueError"
    by (simp add: parse_defs host_defs)
  from j p a c run_failed [OF k] run_failed [OF f] show ?thesis by simp
qed

section \<open>Applying the manifest\<close>






text \<open>
  C8. When the tool input is valid JSON but not a JSON object, \<^verbatim>\<open>_run\<close> ends with an
  \<^verbatim>\<open>AttributeError\<close> that nothing catches: the other two formats are not tried, and the
  world is as it was.
\<close>

theorem run_non_object_json:
  assumes "json_loads e s = Inr v" and "\<not> is_dict v"
  shows "CreateDeploymentTool_run e s w = (Inl AttributeError, w)"
proof -
  from assms(2) have "parse_json v = Inl AttributeError"
    by (cases v) (simp_all add: parse_json_def)
  with assms(1) have "parse_tool_input e s = Inl AttributeError"
    by (simp add: parse_tool_input_def)
  then show ?thesis by (rule run_failed)
qed

theorem run_non_object_json_witness:
  "json_loads sample_env ''3'' = Inr (PInt 3) \<and> \<not> is_dict (PInt 3)
   \<and> CreateDeploymentTool_run sample_env ''3'' empty_world = (Inl AttributeError, empty_world)"
proof -
  have h: "json_loads sample_env ''3'' = Inr (PInt 3)"
    by (simp add: host_defs)
  have d: "\<not> is_dict (PInt 3)" by simp
  from run_non_object_json [OF h d] h d show ?thesis by simp
qed

text \<open>
  C9 as stated fails: \<^verbatim>\<open>apply_yaml\<close> does raise on a failure of \<^verbatim>\<open>kubectl\<close>, and then
  the temporary file is not deleted. When there is no \<^verbatim>\<open>kubectl\<close> to start,
  \<^verbatim>\<open>subprocess.run\<close> raises \<^verbatim>\<open>FileNotFoundError\<close>; when \<^verbatim>\<open>kubectl\<close> ran, failed and
  wrote bytes that are no text, it raises \<^verbatim>\<open>UnicodeDecodeError\<close>. Both leave
  \<^verbatim>\<open>apply_yaml\<close>, and the manifest file is still there.
\<close>

theorem apply_yaml_raises_and_leaves_file:
  "fst (apply_yaml (sample_env\<lparr>subprocess_run := kubectl_missing\<rparr>) ''kind: Deployment''
          empty_world) = Inl OSError
   \<and> files (snd (apply_yaml (sample_env\<lparr>subprocess_run := kubectl_missing\<rparr>)
                   ''kind: Deployment'' empty_world)) ''/tmp/tmp0.yaml''
       = Some ''kind: Deployment''
   \<and> fst (apply_yaml (sample_env\<lparr>subprocess_run := kubectl_garbled\<rparr>) ''kind: Deployment''
            empty_world) = Inl UnicodeDecodeError
   \<and> files (snd (apply_yaml (sample_env\<lparr>subprocess_run := kubectl_garbled\<rparr>)
                   ''kind: Deployment'' empty_world)) ''/tmp/tmp0.yaml''
       = Some ''kind: Deployment''"
  by (simp add: apply_yaml_def Let_def host_defs)

text \<open>
  C9, as the program has it. Whenever \<^verbatim>\<open>subprocess.run\<close> returns a completed process
  (\<^verbatim>\<open>kubectl\<close> was started and its output was text), with whatever return code, and the
  temporary file is still there, \<^verbatim>\<open>apply_yaml\<close> raises nothing and signals no failure
  by type: it returns the standard output of the process when the return code is 0 and
  its standard error otherwise, a plain string in both cases, and the temporary manifest
  file no longer exists when it returns.
\<close>

theorem apply_yaml_returns_output:
  assumes "subprocess_run e [''kubectl'', ''apply'', ''-f'', tmp_name e (files w)]
             (w\<lparr>files := (files w)(tmp_name e (files w) \<mapsto> y)\<rparr>) = (Inr r, fs, cl)"
    and "fs (tmp_name e (files w)) = Some content"
  shows "fst (apply_yaml e y w) = Inr (if returncode r = 0 then stdout r else stderr r)
       \<and> files (snd (apply_yaml e y w)) (tmp_name e (files w)) = None"
  using assms by (simp add: apply_yaml_def Let_def)

theorem apply_yaml_returns_output_witness:
  "subprocess_run sample_env [''kubectl'', ''apply'', ''-f'', ''/tmp/tmp0.yaml'']
     (empty_world\<lparr>files := (files empty_world)(''/tmp/tmp0.yaml'' \<mapsto> ''kind: Deployment'')\<rparr>)
     = (Inr \<lparr>returncode = 0, stdout = ''deployment.apps/web created'', stderr = []\<rparr>,
        [''/tmp/tmp0.yaml'' \<mapsto> ''kind: Deployment''], Map.empty)
   \<and> fst (apply_yaml sample_env ''kind: Deployment'' empty_world)
       = Inr ''deployment.apps/web created''
   \<and> files (snd (apply_yaml sample_env ''kind: Deployment'' empty_world)) ''/tmp/tmp0.yaml'' = None
   \<and> fst (apply_yaml (sample_env\<lparr>subprocess_run := kubectl_fails\<rparr>) ''kind: Deployment''
            empty_world)
       = Inr ''error: unable to connect to the server''
   \<and> files (snd (apply_yaml (sample_env\<lparr>subprocess_run := kubectl_fails\<rparr>) ''kind: Deployment''
                   empty_world)) ''/tmp/tmp0.yaml'' = None"
proof -
  let ?f = "sample_env\<lparr>subprocess_run := kubectl_fails\<rparr>"
  let ?fs = "[''/tmp/tmp0.yaml'' \<mapsto> ''kind: Deployment'']"
  have t: "tmp_name sample_env (files empty_world) = ''/tmp/tmp0.yaml''"
    by (simp add: sample_env_sel)
  have h: "subprocess_run sample_env
             [''kubectl'', ''apply'', ''-f'', tmp_name sample_env (files empty_world)]
             (empty_world\<lparr>files := (files empty_world)
                (tmp_name sample_env (files empty_world) \<mapsto> ''kind: Deployment'')\<rparr>)
           = (Inr \<lparr>returncode = 0, stdout = ''deployment.apps/web created'', stderr = []\<rparr>,
              ?fs, Map.empty)"
    by (simp add: host_defs)
  have h': "subprocess_run ?f
             [''kubectl'', ''apply'', ''-f'', tmp_name ?f (files empty_world)]
             (empty_world\<lparr>files := (files empty_world)
                (tmp_name ?f (files empty_world) \<mapsto> ''kind: Deployment'')\<rparr>)
           = (Inr \<lparr>returncode = 1, stdout = [],
                   stderr = ''error: unable to connect to the server''\<rparr>, ?fs, Map.empty)"
    by (simp add: host_defs)
  have k: "?fs (tmp_name sample_env (files empty_world)) = Some ''kind: Deployment''"
    and k': "?fs (tmp_name ?f (files empty_world)) = Some ''kind: Deployment''"
    by (simp_all add: sample_env_sel)
  have a: "fst (apply_yaml sample_env ''kind: Deployment'' empty_world)
             = Inr ''deployment.apps/web created''
           \<and> files (snd (apply_yaml sample_env ''kind: Deployment'' empty_world))
               ''/tmp/tmp0.yaml'' = None"
    using apply_yaml_returns_output [OF h k] by (simp add: t)
  have b: "fst (apply_yaml ?f ''kind: Deployment'' empty_world)
             = Inr ''error: unable to connect to the server''
           \<and> files (snd (apply_yaml ?f ''kind: Deployment'' empty_world))
               ''/tmp/tmp0.yaml'' = None"
    using apply_yaml_returns_output [OF h' k'] by (simp add: t)
  from h a b show ?thesis by (simp add: t)
qed

section \<open>Defaults\<close>

text \<open>
  C10 as stated fails: in the key=value format the value \<^verbatim>\<open>2.5\<close> is no nonnegative
  integer literal, yet it is not ignored: replicas are 2, not 1.
\<close>

theorem replicas_leading_digits_are_used:
  "parse_tool_input sample_env ''name=web, image=nginx, replicas=2.5''
     = Inr (PStr ''web'', PStr ''nginx'', PInt 2)
   \<and> getpath (deployment (PStr ''web'') (PStr ''nginx'') (PInt 2) default_namespace default_port)
        [''spec'', ''replicas''] = Some (PInt 2)"
proof -
  have p: "parse_tool_input sample_env ''name=web, image=nginx, replicas=2.5''
     = Inr (PStr ''web'', PStr ''nginx'', PInt 2)"
    by (simp add: parse_defs host_defs)
  then show ?thesis by (simp add: deployment_def)
qed

text \<open>
  C10, as the program has it. Replicas default to 1 when a JSON object has no
  \<^verbatim>\<open>replicas\<close> key, when there are exactly two whitespace-separated fields, and, in the
  key=value format, when no \<^verbatim>\<open>replicas=\<close> in the input is directly followed by a decimal
  digit (so for \<^verbatim>\<open>replicas=-3\<close> and \<^verbatim>\<open>replicas=two\<close>), without an error. When some
  \<^verbatim>\<open>replicas=\<close> is followed by a digit, replicas are the number written by the run of
  digits after the leftmost such place, as long as the run is within the digit limit of
  \<^verbatim>\<open>int\<close>. The manifest is always generated with namespace "default" and
  containerPort 80.
\<close>

theorem replicas_default:
  "(json_loads e s = Inr (PDict kvs) \<and> map_of kvs ''replicas'' = None \<longrightarrow>
      (\<exists>n i. parse_tool_input e s = Inr (n, i, PInt 1)))
   \<and> (json_loads e s = Inl JSONDecodeError \<and> CHR ''='' \<in> set s
        \<and> re_search ''name='' not_comma_space s = Some n
        \<and> re_search ''image='' not_comma_space s = Some i \<longrightarrow>
        ((\<nexists>pre c post. s = pre @ ''replicas='' @ c # post \<and> isdigit c) \<longrightarrow>
           parse_tool_input e s = Inr (PStr n, PStr i, PInt 1))
        \<and> (\<forall>ds. re_search ''replicas='' isdigit s = Some ds
               \<and> (int_max_str_digits e = 0 \<or> length ds \<le> int_max_str_digits e) \<longrightarrow>
             parse_tool_input e s = Inr (PStr n, PStr i, PInt (int (digits_value 0 ds)))))
   \<and> (json_loads e s = Inl JSONDecodeError \<and> CHR ''='' \<notin> set s \<and> split s = [n', i'] \<longrightarrow>
        parse_tool_input e s = Inr (PStr n', PStr i', PInt 1))
   \<and> (parse_tool_input e s = Inr (name, img, replicas) \<longrightarrow>
        CreateDeploymentTool_run e s w
          = apply_yaml e
              (yaml_dump e (deployment name img replicas (PStr ''default'') (PInt 80))) w)"
proof (intro conjI impI allI)
  assume "json_loads e s = Inr (PDict kvs) \<and> map_of kvs ''replicas'' = None"
  then show "\<exists>n i. parse_tool_input e s = Inr (n, i, PInt 1)"
    by (simp add: parse_tool_input_def parse_json_def)
next
  assume a: "json_loads e s = Inl JSONDecodeError \<and> CHR ''='' \<in> set s
        \<and> re_search ''name='' not_comma_space s = Some n
        \<and> re_search ''image='' not_comma_space s = Some i"
    and b: "\<nexists>pre c post. s = pre @ ''replicas='' @ c # post \<and> isdigit c"
  have "re_search ''replicas='' isdigit s = None"
    using b unfolding re_search_None .
  with a show "parse_tool_input e s = Inr (PStr n, PStr i, PInt 1)"
    by (simp add: parse_tool_input_def parse_key_value_def)
next
  fix ds
  assume a: "json_loads e s = Inl JSONDecodeError \<and> CHR ''='' \<in> set s
        \<and> re_search ''name='' not_comma_space s = Some n
        \<and> re_search ''image='' not_comma_space s = Some i"
    and b: "re_search ''replicas='' isdigit s = Some ds
               \<and> (int_max_str_digits e = 0 \<or> length ds \<le> int_max_str_digits e)"
  from b have r: "re_search ''replicas='' isdigit s = Some ds" by simp
  from re_search_Some [OF r] have "ds \<noteq> []" "\<forall>c\<in>set ds. isdigit c" by simp_all
  from py_int_digits [OF this] b have "py_int e ds = Inr (int (digits_value 0 ds))" by simp
  with a r show "parse_tool_input e s = Inr (PStr n, PStr i, PInt (int (digits_value 0 ds)))"
    by (simp add: parse_tool_input_def parse_key_value_def)
next
  assume "json_loads e s = Inl JSONDecodeError \<and> CHR ''='' \<notin> set s \<and> split s = [n', i']"
  then show "parse_tool_input e s = Inr (PStr n', PStr i', PInt 1)"
    by (simp add: parse_tool_input_def parse_fields_def)
next
  assume "parse_tool_input e s = Inr (name, img, replicas)"
  then show "CreateDeploymentTool_run e s w
          = apply_yaml e
              (yaml_dump e (deployment name img replicas (PStr ''default'') (PInt 80))) w"
    by (simp add: run_parsed generate_deployment_yaml_def default_namespace_def default_port_def)
qed

theorem replicas_default_witness:
  \<open>json_loads sample_env ''name=web, image=nginx, replicas=-3'' = Inl JSONDecodeError
   \<and> CHR ''='' \<in> set ''name=web, image=nginx, replicas=-3''
   \<and> re_search ''replicas='' isdigit ''name=web, image=nginx, replicas=-3'' = None
   \<and> parse_tool_input sample_env ''name=web, image=nginx, replicas=-3''
       = Inr (PStr ''web'', PStr ''nginx'', PInt 1)
   \<and> re_search ''replicas='' isdigit ''name=web, image=nginx, replicas=two'' = None
   \<and> parse_tool_input sample_env ''name=web, image=nginx, replicas=two''
       = Inr (PStr ''web'', PStr ''nginx'', PInt 1)
   \<and> re_search ''replicas='' isdigit ''name=web, image=nginx, replicas=2.5'' = Some ''2''
   \<and> parse_tool_input sample_env ''name=web, image=nginx, replicas=2.5''
       = Inr (PStr ''web'', PStr ''nginx'', PInt 2)
   \<and> json_loads sample_env ''{"name": "web", "image": "nginx"}''
       = Inr (PDict [(''name'', PStr ''web''), (''image'', PStr ''nginx'')])
   \<and> (\<exists>n i. parse_tool_input sample_env ''{"name": "web", "image": "nginx"}''
         = Inr (n, i, PInt 1))
   \<and> json_loads sample_env ''web nginx'' = Inl JSONDecodeError
   \<and> CHR ''='' \<notin> set ''web nginx''
   \<and> split ''web nginx'' = [''web'', ''nginx'']
   \<and> parse_tool_input sample_env ''web nginx'' = Inr (PStr ''web'', PStr ''nginx'', PInt 1)
   \<and> CreateDeploymentTool_run sample_env ''web nginx'' empty_world
       = apply_yaml sample_env
           (yaml_dump sample_env
              (deployment (PStr ''web'') (PStr ''nginx'') (PInt 1) (PStr ''default'') (PInt 80)))
           empty_world\<close>
proof -
  let ?a = "''name=web, image=nginx, replicas=-3''"
  let ?b = "''name=web, image=nginx, replicas=two''"
  let ?c = "''name=web, image=nginx, replicas=2.5''"
  have ja: "json_loads sample_env ?a = Inl JSONDecodeError"
    and jb: "json_loads sample_env ?b = Inl JSONDecodeError"
    and jc: "json_loads sample_env ?c = Inl JSONDecodeError"
    by (simp_all add: host_defs)
  have ma: "CHR ''='' \<in> set ?a" and mb: "CHR ''='' \<in> set ?b" and mc: "CHR ''='' \<in> set ?c"
    by simp_all
  have na: "re_search ''name='' not_comma_space ?a = Some ''web''"
    and nb: "re_search ''name='' not_comma_space ?b = Some ''web''"
    and nc: "re_search ''name='' not_comma_space ?c = Some ''web''"
    by (simp_all add: match_here_def not_comma_space_def isspace_def)
  have ia: "re_search ''image='' not_comma_space ?a = Some ''nginx''"
    and ib: "re_search ''image='' not_comma_space ?b = Some ''nginx''"
    and ic: "re_search ''image='' not_comma_space ?c = Some ''nginx''"
    by (simp_all add: match_here_def not_comma_space_def isspace_def)
  have ra: "re_search ''replicas='' isdigit ?a = None"
    and rb: "re_search ''replicas='' isdigit ?b = None"
    and rc: "re_search ''replicas='' isdigit ?c = Some ''2''"
    by (simp_all add: match_here_def isdigit_def)
  have xa: "\<nexists>pre c post. ?a = pre @ ''replicas='' @ c # post \<and> isdigit c"
    using ra unfolding re_search_None .
  have xb: "\<nexists>pre c post. ?b = pre @ ''replicas='' @ c # post \<and> isdigit c"
    using rb unfolding re_search_None .
  have lc: "int_max_str_digits sample_env = 0 \<or> length ''2'' \<le> int_max_str_digits sample_env"
    by (simp add: sample_env_sel)
  have pa: "parse_tool_input sample_env ?a = Inr (PStr ''web'', PStr ''nginx'', PInt 1)"
    using replicas_default [where e = sample_env and s = ?a and n = "''web''" and i = "''nginx''",
        THEN conjunct2, THEN conjunct1] ja ma na ia xa
    by blast
  have pb: "parse_tool_input sample_env ?b = Inr (PStr ''web'', PStr ''nginx'', PInt 1)"
    using replicas_default [where e = sample_env and s = ?b and n = "''web''" and i = "''nginx''",
        THEN conjunct2, THEN conjunct1] jb mb nb ib xb
    by blast
  have "parse_tool_input sample_env ?c
          = Inr (PStr ''web'', PStr ''nginx'', PInt (int (digits_value 0 ''2'')))"
    using replicas_default [where e = sample_env and s = ?c and n = "''web''" and i = "''nginx''",
        THEN conjunct2, THEN conjunct1] jc mc nc ic rc lc
    by blast
  then have pc: "parse_tool_input sample_env ?c = Inr (PStr ''web'', PStr ''nginx'', PInt 2)"
    by simp
  have jj: \<open>json_loads sample_env ''{"name": "web", "image": "nginx"}''
       = Inr (PDict [(''name'', PStr ''web''), (''image'', PStr ''nginx'')])\<close>
    by (simp add: host_defs)
  have mj: "map_of [(''name'', PStr ''web''), (''image'', PStr ''nginx'')] ''replicas'' = None"
    by simp
  have pj: \<open>\<exists>n i. parse_tool_input sample_env ''{"name": "web", "image": "nginx"}''
         = Inr (n, i, PInt 1)\<close>
    using replicas_default [where e = sample_env
        and kvs = "[(''name'', PStr ''web''), (''image'', PStr ''nginx'')]", THEN conjunct1] jj mj
    by blast
  have jw: "json_loads sample_env ''web nginx'' = Inl JSONDecodeError"
    by (simp add: host_defs)
  have mw: "CHR ''='' \<notin> set ''web nginx''" by simp
  have sw: "split ''web nginx'' = [''web'', ''nginx'']"
    by (simp add: split_def isspace_def)
  have pw: "parse_tool_input sample_env ''web nginx'' = Inr (PStr ''web'', PStr ''nginx'', PInt 1)"
    using replicas_default [where e = sample_env and s = "''web nginx''" and n' = "''web''"
        and i' = "''nginx''", THEN conjunct2, THEN conjunct2, THEN conjunct1] jw mw sw
    by blast
  have rw: "CreateDeploymentTool_run sample_env ''web nginx'' empty_world
       = apply_yaml sample_env
           (yaml_dump sample_env
              (deployment (PStr ''web'') (PStr ''nginx'') (PInt 1) (PStr ''default'') (PInt 80)))
           empty_world"
    using replicas_default [where e = sample_env and s = "''web nginx''" and w = empty_world,
        THEN conjunct2, THEN conjunct2, THEN conjunct2] pw
    by blast
  from ja ma ra pa rb pb rc pc jj pj jw mw sw pw rw show ?thesis by (intro conjI)
qed

end
